theory Spec2Isabelle
  imports Main
begin

section \<open>Whirlpool sensor platform: the washer/dryer sensors of \<open>sensor.py\<close>\<close>

text \<open>
  The development embeds the washer/dryer part of
  \<^verbatim>\<open>custom_components/whirlpool/sensor.py\<close>: the state classifier
  \<^verbatim>\<open>washer_state\<close>, the tank-level lookup of \<^verbatim>\<open>SENSORS\<close>, and the
  end-time sensor \<^verbatim>\<open>WasherDryerTimeClass\<close>.
\<close>

subsection \<open>The appliance object as the source reads it\<close>

text \<open>
  \<^verbatim>\<open>MachineState\<close> is an enumeration of the \<^verbatim>\<open>whirlpool\<close> package. The source
  names nineteen of its members (the keys of \<^verbatim>\<open>MACHINE_STATE\<close>); \<open>Unlisted\<close>
  stands for any member that the source does not name, told apart by its value.
\<close>

datatype MachineState =
    Standby
  | Setting
  | DelayCountdownMode
  | DelayPause
  | SmartDelay
  | SmartGridPause
  | Pause
  | RunningMainCycle
  | RunningPostCycle
  | Exceptions
  | Complete
  | PowerFailure
  | ServiceDiagnostic
  | FactoryDiagnostic
  | LifeTest
  | CustomerFocusMode
  | DemoMode
  | HardStopOrError
  | SystemInit
  | Unlisted nat

text \<open>
  The source touches a \<^verbatim>\<open>WasherDryer\<close> only through its getters, so the record has
  one field per getter, holding what the getter returns for the current snapshot.
  \<open>get_attribute\<close> gives \<open>None\<close> for an attribute that is absent, and
  \<open>get_machine_state\<close> is \<open>None\<close> when the appliance object reports no state
  (Python's \<^verbatim>\<open>None\<close>).
\<close>

record WasherDryer =
  get_attribute :: "string \<Rightarrow> string option"
  get_machine_state :: "MachineState option"
  get_cycle_status_filling :: bool
  get_cycle_status_rinsing :: bool
  get_cycle_status_sensing :: bool
  get_cycle_status_soaking :: bool
  get_cycle_status_spinning :: bool
  get_cycle_status_washing :: bool
  get_online :: bool

subsection \<open>The lookup tables\<close>

definition TANK_FILL :: "(string \<times> string) list" where
  "TANK_FILL =
     [(''0'', ''unknown''),
      (''1'', ''empty''),
      (''2'', ''25''),
      (''3'', ''50''),
      (''4'', ''100''),
      (''5'', ''active'')]"

definition MACHINE_STATE :: "(MachineState \<times> string) list" where
  "MACHINE_STATE =
     [(Standby, ''standby''),
      (Setting, ''setting''),
      (DelayCountdownMode, ''delay_countdown''),
      (DelayPause, ''delay_paused''),
      (SmartDelay, ''smart_delay''),
      (SmartGridPause, ''smart_grid_pause''),
      (Pause, ''pause''),
      (RunningMainCycle, ''running_maincycle''),
      (RunningPostCycle, ''running_postcycle''),
      (Exceptions, ''exception''),
      (Complete, ''complete''),
      (PowerFailure, ''power_failure''),
      (ServiceDiagnostic, ''service_diagnostic_mode''),
      (FactoryDiagnostic, ''factory_diagnostic_mode''),
      (LifeTest, ''life_test''),
      (CustomerFocusMode, ''customer_focus_mode''),
      (DemoMode, ''demo_mode''),
      (HardStopOrError, ''hard_stop_or_error''),
      (SystemInit, ''system_initialize'')]"

text \<open>
  \<^verbatim>\<open>d.get(k)\<close> on a dictionary literal: the value stored under \<open>k\<close>, and
  \<^verbatim>\<open>None\<close> for every other key, \<^verbatim>\<open>None\<close> itself included.
\<close>

definition dict_get :: "('k \<times> 'v) list \<Rightarrow> 'k option \<Rightarrow> 'v option" where
  "dict_get d k = (case k of None \<Rightarrow> None | Some key \<Rightarrow> map_of d key)"

subsection \<open>The state classifier\<close>

definition DOOR_OPEN :: string where
  "DOOR_OPEN = ''door_open''"

definition CYCLE_FUNC :: "((WasherDryer \<Rightarrow> bool) \<times> string) list" where
  "CYCLE_FUNC =
     [(get_cycle_status_filling, ''cycle_filling''),
      (get_cycle_status_rinsing, ''cycle_rinsing''),
      (get_cycle_status_sensing, ''cycle_sensing''),
      (get_cycle_status_soaking, ''cycle_soaking''),
      (get_cycle_status_spinning, ''cycle_spinning''),
      (get_cycle_status_washing, ''cycle_washing'')]"

text \<open>The \<^verbatim>\<open>for func, cycle_name in CYCLE_FUNC\<close> loop; \<open>None\<close> when it runs out.\<close>

fun cycle_loop :: "((WasherDryer \<Rightarrow> bool) \<times> string) list \<Rightarrow> WasherDryer \<Rightarrow> string option" where
  "cycle_loop [] washer = None"
| "cycle_loop ((func, cycle_name) # rest) washer =
     (if func washer then Some cycle_name else cycle_loop rest washer)"

definition washer_state :: "WasherDryer \<Rightarrow> string option" where
  "washer_state washer =
     (if get_attribute washer ''Cavity_OpStatusDoorOpen'' = Some ''1'' then Some DOOR_OPEN
      else
        let machine_state = get_machine_state washer in
        (case (if machine_state = Some RunningMainCycle
               then cycle_loop CYCLE_FUNC washer else None) of
           Some cycle_name \<Rightarrow> Some cycle_name
         | None \<Rightarrow> dict_get MACHINE_STATE machine_state))"

subsection \<open>The tank-level sensor\<close>

text \<open>The \<^verbatim>\<open>value_fn\<close> of the \<^verbatim>\<open>DispenseLevel\<close> description.\<close>

definition tank_value_fn :: "WasherDryer \<Rightarrow> string option" where
  "tank_value_fn wd =
     dict_get TANK_FILL (get_attribute wd ''WashCavity_OpStatusBulkDispense1Level'')"

subsection \<open>Python's \<^verbatim>\<open>int\<close> on an attribute value\<close>

datatype py_error = TypeError | ValueError | OverflowError | AttributeError

text \<open>
  Attribute text is modelled over the code points 0 to 255, one \<open>char\<close> each. On such
  text \<^verbatim>\<open>int(s)\<close> skips leading and trailing white space (tab, line feed, vertical
  tab, form feed, carriage return, space, and the two white-space code points 0x85 and
  0xA0), accepts one sign, and then needs decimal digits, where a single underscore may
  stand between two digits. Everything else raises \<^verbatim>\<open>ValueError\<close>, and so does a
  literal of more than \<open>int_max_str_digits\<close> digits (the interpreter's default limit).
  \<^verbatim>\<open>int(None)\<close> raises \<^verbatim>\<open>TypeError\<close>.
\<close>

definition is_space :: "char \<Rightarrow> bool" where
  "is_space c = ((of_char c :: nat) \<in> set [9, 10, 11, 12, 13, 32, 133, 160])"

definition is_digit :: "char \<Rightarrow> bool" where
  "is_digit c = (48 \<le> (of_char c :: nat) \<and> (of_char c :: nat) \<le> 57)"

definition digit_value :: "char \<Rightarrow> int" where
  "digit_value c = int (of_char c) - 48"

definition int_max_str_digits :: nat where
  "int_max_str_digits = 4300"

text \<open>
  The scan over digits and underscores: \<open>prev_us\<close> tells whether the character before
  was an underscore. The result is the digits read and the text left over, or \<open>None\<close>
  for a doubled or a trailing underscore.
\<close>

fun scan_digits :: "string \<Rightarrow> bool \<Rightarrow> int list \<Rightarrow> (int list \<times> string) option" where
  "scan_digits [] prev_us acc = (if prev_us then None else Some (acc, []))"
| "scan_digits (c # cs) prev_us acc =
     (if c = CHR ''_'' then (if prev_us then None else scan_digits cs True acc)
      else if is_digit c then scan_digits cs False (acc @ [digit_value c])
      else if prev_us then None
      else Some (acc, c # cs))"

definition digits_value :: "int list \<Rightarrow> int" where
  "digits_value ds = foldl (\<lambda>a d. 10 * a + d) 0 ds"

definition strip_sign :: "string \<Rightarrow> bool \<times> string" where
  "strip_sign s =
     (case s of
        [] \<Rightarrow> (False, [])
      | c # r \<Rightarrow> if c = CHR ''-'' then (True, r)
                 else if c = CHR ''+'' then (False, r)
                 else (False, c # r))"

definition int_of_str :: "string \<Rightarrow> py_error + int" where
  "int_of_str s =
     (let (neg, body) = strip_sign (dropWhile is_space s) in
      if take 1 body = ''_'' then Inl ValueError
      else
        (case scan_digits body False [] of
           None \<Rightarrow> Inl ValueError
         | Some (ds, rest) \<Rightarrow>
             if ds = [] then Inl ValueError
             else if length ds > int_max_str_digits then Inl ValueError
             else if dropWhile is_space rest \<noteq> [] then Inl ValueError
             else Inr (if neg then - digits_value ds else digits_value ds)))"

definition py_int :: "string option \<Rightarrow> py_error + int" where
  "py_int v = (case v of None \<Rightarrow> Inl TypeError | Some s \<Rightarrow> int_of_str s)"

subsection \<open>Instants and durations\<close>

text \<open>
  A \<^verbatim>\<open>datetime\<close> with a time zone is an instant: the number of microseconds since
  0001-01-01T00:00:00 UTC, the least \<^verbatim>\<open>datetime\<close>. A \<^verbatim>\<open>timedelta\<close> is a number
  of microseconds. Both constructions of the source that can leave the range of their
  type raise \<^verbatim>\<open>OverflowError\<close>: \<^verbatim>\<open>timedelta(seconds=n)\<close> holds at most 999999999
  days either way, and a \<^verbatim>\<open>datetime\<close> ends with the year 9999, which is 3652059 days
  after its start.
\<close>

type_synonym instant = int
type_synonym duration = int

definition timedelta_seconds :: "int \<Rightarrow> py_error + duration" where
  "timedelta_seconds n =
     (if - 999999999 \<le> n div 86400 \<and> n div 86400 \<le> 999999999
      then Inr (n * 1000000) else Inl OverflowError)"

definition datetime_max :: instant where
  "datetime_max = 3652059 * 86400 * 1000000"

definition datetime_add :: "instant \<Rightarrow> duration \<Rightarrow> py_error + instant" where
  "datetime_add t d =
     (if 0 \<le> t + d \<and> t + d < datetime_max then Inr (t + d) else Inl OverflowError)"

text \<open>\<^verbatim>\<open>now + timedelta(seconds=remaining_seconds)\<close>.\<close>

definition new_timestamp_of :: "instant \<Rightarrow> int \<Rightarrow> py_error + instant" where
  "new_timestamp_of now remaining_seconds =
     (case timedelta_seconds remaining_seconds of
        Inl e \<Rightarrow> Inl e
      | Inr d \<Rightarrow> datetime_add now d)"

subsection \<open>The end-time sensor\<close>

text \<open>
  The sensor's \<^verbatim>\<open>_attr_native_value\<close> is \<^verbatim>\<open>None\<close>, a \<^verbatim>\<open>datetime\<close>, or a value of
  another type (a restored state may be a string, a number or a date), kept as text.
\<close>

datatype native_value = NativeNone | NativeDatetime instant | NativeOther string

record WasherDryerTimeClass =
  running :: "bool option"
  attr_native_value :: native_value

text \<open>
  A run of a method: the object's fields when the method ends, the states given to
  \<^verbatim>\<open>_async_write_ha_state\<close> in order, and the exception that ended it, if one did.
\<close>

record outcome =
  sensor :: WasherDryerTimeClass
  written :: "native_value list"
  raised :: "py_error option"

text \<open>\<^verbatim>\<open>__init__\<close>: the fields the methods below read.\<close>

definition init :: WasherDryerTimeClass where
  "init = \<lparr>running = None, attr_native_value = NativeNone\<rparr>"

text \<open>
  \<^verbatim>\<open>async_added_to_hass\<close>: \<open>restored_data\<close> is what
  \<^verbatim>\<open>async_get_last_sensor_data\<close> returned, \<open>None\<close> or the stored record, given by
  its \<^verbatim>\<open>native_value\<close>.
\<close>

definition async_added_to_hass :: "native_value option \<Rightarrow> WasherDryerTimeClass \<Rightarrow> outcome" where
  "async_added_to_hass restored_data self =
     \<lparr>sensor = (case restored_data of
                  None \<Rightarrow> self
                | Some v \<Rightarrow> self\<lparr>attr_native_value := v\<rparr>),
      written = [],
      raised = None\<rparr>"

text \<open>
  The test of the source before it stores a new timestamp: no value yet, or a
  \<^verbatim>\<open>datetime\<close> more than 60 seconds away from the new one.
\<close>

definition differs_enough :: "native_value \<Rightarrow> instant \<Rightarrow> bool" where
  "differs_enough v new_timestamp =
     (case v of
        NativeNone \<Rightarrow> True
      | NativeDatetime t \<Rightarrow> \<bar>new_timestamp - t\<bar> > 60 * 1000000
      | NativeOther x \<Rightarrow> False)"

text \<open>
  \<^verbatim>\<open>update_from_latest_data\<close>, with the clock reading \<open>now\<close> of \<^verbatim>\<open>utcnow()\<close> as
  an argument. Two members of an enumeration have the same \<^verbatim>\<open>value\<close> only if they
  are the same member, so the test on \<^verbatim>\<open>machine_state.value\<close> is a test on the member;
  on \<^verbatim>\<open>None\<close> the attribute access raises.
\<close>

definition update_from_latest_data :: "WasherDryer \<Rightarrow> instant \<Rightarrow> WasherDryerTimeClass \<Rightarrow> outcome" where
  "update_from_latest_data wd now self =
     (case get_machine_state wd of
        None \<Rightarrow> \<lparr>sensor = self, written = [], raised = Some AttributeError\<rparr>
      | Some machine_state \<Rightarrow>
          let finished = ((machine_state = Complete \<or> machine_state = Standby)
                          \<and> running self = Some True);
              self1 = (if finished
                       then self\<lparr>running := Some False, attr_native_value := NativeDatetime now\<rparr>
                       else self);
              written1 = (if finished then [NativeDatetime now] else [])
          in
          if machine_state = RunningMainCycle then
            let self2 = self1\<lparr>running := Some True\<rparr> in
            (case py_int (get_attribute wd ''Cavity_TimeStatusEstTimeRemaining'') of
               Inl e \<Rightarrow> \<lparr>sensor = self2, written = written1, raised = Some e\<rparr>
             | Inr remaining_seconds \<Rightarrow>
                 (case new_timestamp_of now remaining_seconds of
                    Inl e \<Rightarrow> \<lparr>sensor = self2, written = written1, raised = Some e\<rparr>
                  | Inr new_timestamp \<Rightarrow>
                      if differs_enough (attr_native_value self2) new_timestamp
                      then \<lparr>sensor = self2\<lparr>attr_native_value := NativeDatetime new_timestamp\<rparr>,
                            written = written1 @ [NativeDatetime new_timestamp],
                            raised = None\<rparr>
                      else \<lparr>sensor = self2, written = written1, raised = None\<rparr>))
          else \<lparr>sensor = self1, written = written1, raised = None\<rparr>)"

text \<open>
  A sequence of notifications on one sensor object: each one calls the callback on the
  fields as the call before left them, also when that call raised.
\<close>

fun notifications :: "(WasherDryer \<times> instant) list \<Rightarrow> WasherDryerTimeClass
    \<Rightarrow> WasherDryerTimeClass \<times> native_value list" where
  "notifications [] self = (self, [])"
| "notifications ((wd, now) # rest) self =
     (let r = update_from_latest_data wd now self;
          (self', ws) = notifications rest (sensor r)
      in (self', written r @ ws))"

subsection \<open>Example snapshots\<close>

text \<open>
  A snapshot with the given attributes and machine state, every cycle-phase flag off
  and the appliance online. The instant \<open>t_2024\<close> is 2024-01-01T00:00:00 UTC.
\<close>

definition snapshot :: "(string \<times> string) list \<Rightarrow> MachineState option \<Rightarrow> WasherDryer" where
  "snapshot attrs ms =
     \<lparr>get_attribute = map_of attrs, get_machine_state = ms,
      get_cycle_status_filling = False, get_cycle_status_rinsing = False,
      get_cycle_status_sensing = False, get_cycle_status_soaking = False,
      get_cycle_status_spinning = False, get_cycle_status_washing = False,
      get_online = True\<rparr>"

definition t_2024 :: instant where
  "t_2024 = 63839664000000000"

section \<open>Properties\<close>

subsection \<open>Auxiliary facts\<close>

lemma int_of_str_error: "int_of_str s = Inl e \<Longrightarrow> e = ValueError"
  by (auto simp: int_of_str_def Let_def split: prod.splits option.splits if_splits)

lemma py_int_error:
  "py_int v = Inl e \<Longrightarrow> e = (if v = None then TypeError else ValueError)"
  by (cases v) (auto simp: py_int_def dest: int_of_str_error)

lemma new_timestamp_of_value:
  "new_timestamp_of now n = Inr t \<Longrightarrow> t = now + n * 1000000"
  by (auto simp: new_timestamp_of_def timedelta_seconds_def datetime_add_def split: if_splits)

lemma py_int_120: "py_int (Some ''120'') = Inr 120"
  by (simp add: py_int_def int_of_str_def strip_sign_def is_space_def is_digit_def
      digit_value_def digits_value_def int_max_str_digits_def)

lemma py_int_abc: "py_int (Some ''abc'') = Inl ValueError"
  by (simp add: py_int_def int_of_str_def strip_sign_def is_space_def is_digit_def)

lemma new_timestamp_of_120:
  "new_timestamp_of t_2024 120 = Inr (t_2024 + 120000000)"
  by (simp add: new_timestamp_of_def timedelta_seconds_def datetime_add_def
      datetime_max_def t_2024_def)

lemma idle_update:
  assumes "running self \<noteq> Some True"
    and "get_machine_state wd \<noteq> Some RunningMainCycle"
  shows "update_from_latest_data wd now self =
           \<lparr>sensor = self, written = [],
            raised = (if get_machine_state wd = None then Some AttributeError else None)\<rparr>"
  using assms by (simp add: update_from_latest_data_def split: option.splits)

lemma idle_notifications:
  assumes "running self \<noteq> Some True"
    and "\<forall>(wd, now) \<in> set ns. get_machine_state wd \<noteq> Some RunningMainCycle"
  shows "notifications ns self = (self, [])"
  using assms
proof (induction ns)
  case Nil
  show ?case by simp
next
  case (Cons a ns)
  obtain wd now where a: "a = (wd, now)" by (cases a)
  from Cons.prems a have ms: "get_machine_state wd \<noteq> Some RunningMainCycle" by simp
  from Cons.prems have rest:
    "\<forall>(wd, now) \<in> set ns. get_machine_state wd \<noteq> Some RunningMainCycle"
    by simp
  have step: "update_from_latest_data wd now self =
      \<lparr>sensor = self, written = [],
       raised = (if get_machine_state wd = None then Some AttributeError else None)\<rparr>"
    by (rule idle_update[OF Cons.prems(1) ms])
  have "notifications ns self = (self, [])"
    by (rule Cons.IH[OF Cons.prems(1) rest])
  with step a show ?case by simp
qed


subsection \<open>State classifier\<close>

text \<open>
  Claim C4. Whenever the attribute \<^verbatim>\<open>Cavity_OpStatusDoorOpen\<close> equals \<^verbatim>\<open>"1"\<close>,
  the classifier returns \<^verbatim>\<open>door_open\<close>, whatever the machine state and the six
  cycle-phase flags are.
\<close>

theorem door_open_overrides:
  "get_attribute washer ''Cavity_OpStatusDoorOpen'' = Some ''1''
   \<Longrightarrow> washer_state washer = Some ''door_open''"
  by (simp add: washer_state_def DOOR_OPEN_def)

theorem door_open_overrides_witness:
  "get_attribute
     ((snapshot [(''Cavity_OpStatusDoorOpen'', ''1'')] (Some RunningMainCycle))
        \<lparr>get_cycle_status_filling := True, get_cycle_status_washing := True\<rparr>)
     ''Cavity_OpStatusDoorOpen'' = Some ''1''
   \<and> washer_state
     ((snapshot [(''Cavity_OpStatusDoorOpen'', ''1'')] (Some RunningMainCycle))
        \<lparr>get_cycle_status_filling := True, get_cycle_status_washing := True\<rparr>)
     = Some ''door_open''"
proof -
  let ?w = "(snapshot [(''Cavity_OpStatusDoorOpen'', ''1'')] (Some RunningMainCycle))
        \<lparr>get_cycle_status_filling := True, get_cycle_status_washing := True\<rparr>"
  have h: "get_attribute ?w ''Cavity_OpStatusDoorOpen'' = Some ''1''"
    by (simp add: snapshot_def)
  show ?thesis using h door_open_overrides[OF h] by simp
qed

text \<open>
  Claim C5. With the door-open attribute different from \<^verbatim>\<open>"1"\<close> and the machine state
  \<^verbatim>\<open>RunningMainCycle\<close>, the classifier tries the six cycle-phase getters in the order
  filling, rinsing, sensing, soaking, spinning, washing and returns the label of the
  first that holds; when none holds it returns the table's label
  \<^verbatim>\<open>running_maincycle\<close>.
\<close>

theorem cycle_phase_priority:
  assumes "get_attribute washer ''Cavity_OpStatusDoorOpen'' \<noteq> Some ''1''"
    and "get_machine_state washer = Some RunningMainCycle"
  shows "washer_state washer =
           Some (if get_cycle_status_filling washer then ''cycle_filling''
                 else if get_cycle_status_rinsing washer then ''cycle_rinsing''
                 else if get_cycle_status_sensing washer then ''cycle_sensing''
                 else if get_cycle_status_soaking washer then ''cycle_soaking''
                 else if get_cycle_status_spinning washer then ''cycle_spinning''
                 else if get_cycle_status_washing washer then ''cycle_washing''
                 else ''running_maincycle'')"
  using assms
  by (simp add: washer_state_def CYCLE_FUNC_def dict_get_def MACHINE_STATE_def)

theorem cycle_phase_priority_witness:
  "washer_state
     ((snapshot [] (Some RunningMainCycle))
        \<lparr>get_cycle_status_rinsing := True, get_cycle_status_washing := True\<rparr>)
     = Some ''cycle_rinsing''
   \<and> washer_state ((snapshot [] (Some RunningMainCycle))\<lparr>get_cycle_status_washing := True\<rparr>)
     = Some ''cycle_washing''
   \<and> washer_state
     (snapshot [(''Cavity_TimeStatusEstTimeRemaining'', ''120'')] (Some RunningMainCycle))
     = Some ''running_maincycle''"
proof -
  let ?a = "(snapshot [] (Some RunningMainCycle))
        \<lparr>get_cycle_status_rinsing := True, get_cycle_status_washing := True\<rparr>"
  let ?b = "(snapshot [] (Some RunningMainCycle))\<lparr>get_cycle_status_washing := True\<rparr>"
  let ?c = "snapshot [(''Cavity_TimeStatusEstTimeRemaining'', ''120'')] (Some RunningMainCycle)"
  have da: "get_attribute ?a ''Cavity_OpStatusDoorOpen'' \<noteq> Some ''1''"
    and db: "get_attribute ?b ''Cavity_OpStatusDoorOpen'' \<noteq> Some ''1''"
    and dc: "get_attribute ?c ''Cavity_OpStatusDoorOpen'' \<noteq> Some ''1''"
    by (simp_all add: snapshot_def)
  have ma: "get_machine_state ?a = Some RunningMainCycle"
    and mb: "get_machine_state ?b = Some RunningMainCycle"
    and mc: "get_machine_state ?c = Some RunningMainCycle"
    by (simp_all add: snapshot_def)
  have "washer_state ?a = Some ''cycle_rinsing''"
    using cycle_phase_priority[OF da ma] by (simp add: snapshot_def)
  moreover have "washer_state ?b = Some ''cycle_washing''"
    using cycle_phase_priority[OF db mb] by (simp add: snapshot_def)
  moreover have "washer_state ?c = Some ''running_maincycle''"
    using cycle_phase_priority[OF dc mc] by (simp add: snapshot_def)
  ultimately show ?thesis by simp
qed

text \<open>
  Claim C6. With the door-open attribute different from \<^verbatim>\<open>"1"\<close> and a machine state
  that is not a key of the table \<^verbatim>\<open>MACHINE_STATE\<close> (a member the table does not list,
  or no state at all), the classifier returns \<^verbatim>\<open>None\<close>; it has no failing branch.
\<close>

theorem unmapped_state_unknown:
  assumes "get_attribute washer ''Cavity_OpStatusDoorOpen'' \<noteq> Some ''1''"
    and "\<forall>m. get_machine_state washer = Some m \<longrightarrow> m \<notin> fst ` set MACHINE_STATE"
  shows "washer_state washer = None"
proof -
  have "get_machine_state washer \<noteq> Some RunningMainCycle"
    using assms(2) by (auto simp: MACHINE_STATE_def)
  moreover have "dict_get MACHINE_STATE (get_machine_state washer) = None"
    using assms(2) by (auto simp: dict_get_def map_of_eq_None_iff split: option.splits)
  ultimately show ?thesis
    using assms(1) by (simp add: washer_state_def)
qed

theorem unmapped_state_unknown_witness:
  "washer_state ((snapshot [] (Some (Unlisted 42)))\<lparr>get_cycle_status_washing := True\<rparr>) = None
   \<and> washer_state (snapshot [(''Cavity_OpStatusDoorOpen'', ''0'')] None) = None"
proof -
  let ?a = "(snapshot [] (Some (Unlisted 42)))\<lparr>get_cycle_status_washing := True\<rparr>"
  let ?b = "snapshot [(''Cavity_OpStatusDoorOpen'', ''0'')] None"
  have da: "get_attribute ?a ''Cavity_OpStatusDoorOpen'' \<noteq> Some ''1''"
    and db: "get_attribute ?b ''Cavity_OpStatusDoorOpen'' \<noteq> Some ''1''"
    by (simp_all add: snapshot_def)
  have ma: "\<forall>m. get_machine_state ?a = Some m \<longrightarrow> m \<notin> fst ` set MACHINE_STATE"
    by (simp add: snapshot_def MACHINE_STATE_def)
  have mb: "\<forall>m. get_machine_state ?b = Some m \<longrightarrow> m \<notin> fst ` set MACHINE_STATE"
    by (simp add: snapshot_def)
  show ?thesis
    using unmapped_state_unknown[OF da ma] unmapped_state_unknown[OF db mb] by simp
qed

subsection \<open>Tank level\<close>

text \<open>
  Claim C8. The tank-level value is a lookup of the attribute
  \<^verbatim>\<open>WashCavity_OpStatusBulkDispense1Level\<close> alone: the codes \<^verbatim>\<open>"0"\<close> to \<^verbatim>\<open>"5"\<close> give
  \<^verbatim>\<open>unknown\<close>, \<^verbatim>\<open>empty\<close>, \<^verbatim>\<open>25\<close>, \<^verbatim>\<open>50\<close>, \<^verbatim>\<open>100\<close>, \<^verbatim>\<open>active\<close>, every other
  code and an absent attribute give \<^verbatim>\<open>None\<close>, and two snapshots that agree on this
  attribute get the same value, whatever the state classifier says about them.
\<close>

theorem tank_level_lookup:
  "tank_value_fn wd =
     (case get_attribute wd ''WashCavity_OpStatusBulkDispense1Level'' of
        None \<Rightarrow> None
      | Some code \<Rightarrow>
          if code = ''0'' then Some ''unknown''
          else if code = ''1'' then Some ''empty''
          else if code = ''2'' then Some ''25''
          else if code = ''3'' then Some ''50''
          else if code = ''4'' then Some ''100''
          else if code = ''5'' then Some ''active''
          else None)
   \<and> (get_attribute wd' ''WashCavity_OpStatusBulkDispense1Level''
        = get_attribute wd ''WashCavity_OpStatusBulkDispense1Level''
      \<longrightarrow> tank_value_fn wd' = tank_value_fn wd)"
  by (simp add: tank_value_fn_def dict_get_def TANK_FILL_def split: option.splits)

theorem tank_level_lookup_witness:
  "tank_value_fn (snapshot [(''WashCavity_OpStatusBulkDispense1Level'', ''3'')] (Some Standby))
     = Some ''50''
   \<and> tank_value_fn
       (snapshot [(''WashCavity_OpStatusBulkDispense1Level'', ''9'')] (Some Standby)) = None
   \<and> tank_value_fn
       (snapshot [(''Cavity_OpStatusDoorOpen'', ''1''),
                  (''WashCavity_OpStatusBulkDispense1Level'', ''3'')] (Some RunningMainCycle))
     = tank_value_fn
         (snapshot [(''WashCavity_OpStatusBulkDispense1Level'', ''3'')] (Some Standby))"
proof -
  let ?a = "snapshot [(''WashCavity_OpStatusBulkDispense1Level'', ''3'')] (Some Standby)"
  let ?b = "snapshot [(''WashCavity_OpStatusBulkDispense1Level'', ''9'')] (Some Standby)"
  let ?c = "snapshot [(''Cavity_OpStatusDoorOpen'', ''1''),
                  (''WashCavity_OpStatusBulkDispense1Level'', ''3'')] (Some RunningMainCycle)"
  have same: "get_attribute ?c ''WashCavity_OpStatusBulkDispense1Level''
      = get_attribute ?a ''WashCavity_OpStatusBulkDispense1Level''"
    by (simp add: snapshot_def)
  have "tank_value_fn ?a = Some ''50''"
    using tank_level_lookup[of ?a ?a] by (simp add: snapshot_def)
  moreover have "tank_value_fn ?b = None"
    using tank_level_lookup[of ?b ?b] by (simp add: snapshot_def)
  moreover have "tank_value_fn ?c = tank_value_fn ?a"
    using tank_level_lookup[of ?a ?c] same by blast
  ultimately show ?thesis by simp
qed

subsection \<open>End-time sensor\<close>

text \<open>
  Claim C1, as amended. When the machine state is \<^verbatim>\<open>RunningMainCycle\<close> and the
  attribute \<^verbatim>\<open>Cavity_TimeStatusEstTimeRemaining\<close> is absent or is not an integer
  literal, the handler raises the error of \<^verbatim>\<open>int\<close> (\<^verbatim>\<open>TypeError\<close> for an absent
  attribute, \<^verbatim>\<open>ValueError\<close> otherwise); it writes no state and leaves the stored
  timestamp as it was, and it has set the running flag to true before the error.
\<close>

theorem unparseable_remaining_raises:
  assumes "get_machine_state wd = Some RunningMainCycle"
    and "py_int (get_attribute wd ''Cavity_TimeStatusEstTimeRemaining'') = Inl e"
  shows "update_from_latest_data wd now self =
           \<lparr>sensor = self\<lparr>running := Some True\<rparr>, written = [], raised = Some e\<rparr>
         \<and> e = (if get_attribute wd ''Cavity_TimeStatusEstTimeRemaining'' = None
                then TypeError else ValueError)"
  using assms py_int_error[OF assms(2)]
  by (simp add: update_from_latest_data_def)

theorem unparseable_remaining_raises_witness:
  "update_from_latest_data
     (snapshot [(''Cavity_TimeStatusEstTimeRemaining'', ''abc'')] (Some RunningMainCycle))
     t_2024 \<lparr>running = Some False, attr_native_value = NativeDatetime (t_2024 - 7)\<rparr>
   = \<lparr>sensor = \<lparr>running = Some True, attr_native_value = NativeDatetime (t_2024 - 7)\<rparr>,
      written = [], raised = Some ValueError\<rparr>"
proof -
  let ?wd = "snapshot [(''Cavity_TimeStatusEstTimeRemaining'', ''abc'')] (Some RunningMainCycle)"
  have m: "get_machine_state ?wd = Some RunningMainCycle"
    by (simp add: snapshot_def)
  have p: "py_int (get_attribute ?wd ''Cavity_TimeStatusEstTimeRemaining'') = Inl ValueError"
    using py_int_abc by (simp add: snapshot_def)
  show ?thesis
    using unparseable_remaining_raises[OF m p, of t_2024
        "\<lparr>running = Some False, attr_native_value = NativeDatetime (t_2024 - 7)\<rparr>"]
    by simp
qed

theorem malformed_remaining_counterexample:
  "raised (update_from_latest_data (snapshot [] (Some RunningMainCycle)) t_2024 init)
     = Some TypeError
   \<and> raised (update_from_latest_data
        (snapshot [(''Cavity_TimeStatusEstTimeRemaining'', ''abc'')] (Some RunningMainCycle))
        t_2024 init) = Some ValueError
   \<and> running (sensor (update_from_latest_data
        (snapshot [(''Cavity_TimeStatusEstTimeRemaining'', ''abc'')] (Some RunningMainCycle))
        t_2024 init)) \<noteq> running init"
  by (simp add: update_from_latest_data_def snapshot_def init_def py_int_def int_of_str_def
      strip_sign_def is_space_def is_digit_def)

text \<open>
  Claim C2. When the machine state is \<^verbatim>\<open>RunningMainCycle\<close>, the remaining-seconds
  attribute reads as an integer and the candidate \<open>T1 = now + remaining_seconds\<close> is
  computed: with a stored timestamp \<open>T0\<close> at most 60 seconds from \<open>T1\<close> nothing is
  written and \<open>T0\<close> stays; with no stored value, or \<open>T0\<close> more than 60 seconds from
  \<open>T1\<close>, \<open>T1\<close> is written and stored.
\<close>

theorem hysteresis:
  assumes "get_machine_state wd = Some RunningMainCycle"
    and "py_int (get_attribute wd ''Cavity_TimeStatusEstTimeRemaining'') = Inr remaining_seconds"
    and "new_timestamp_of now remaining_seconds = Inr T1"
  shows "T1 = now + remaining_seconds * 1000000
    \<and> (attr_native_value self = NativeDatetime T0 \<and> \<bar>T1 - T0\<bar> \<le> 60 * 1000000
         \<longrightarrow> update_from_latest_data wd now self =
               \<lparr>sensor = self\<lparr>running := Some True\<rparr>, written = [], raised = None\<rparr>)
    \<and> (attr_native_value self = NativeNone
           \<or> (attr_native_value self = NativeDatetime T0 \<and> \<bar>T1 - T0\<bar> > 60 * 1000000)
         \<longrightarrow> update_from_latest_data wd now self =
               \<lparr>sensor = self\<lparr>running := Some True, attr_native_value := NativeDatetime T1\<rparr>,
                written = [NativeDatetime T1], raised = None\<rparr>)"
proof -
  have a: "T1 = now + remaining_seconds * 1000000"
    by (rule new_timestamp_of_value[OF assms(3)])
  have b: "attr_native_value self = NativeDatetime T0 \<and> \<bar>T1 - T0\<bar> \<le> 60 * 1000000
         \<longrightarrow> update_from_latest_data wd now self =
               \<lparr>sensor = self\<lparr>running := Some True\<rparr>, written = [], raised = None\<rparr>"
    using assms by (simp add: update_from_latest_data_def differs_enough_def)
  have c: "attr_native_value self = NativeNone
           \<or> (attr_native_value self = NativeDatetime T0 \<and> \<bar>T1 - T0\<bar> > 60 * 1000000)
         \<longrightarrow> update_from_latest_data wd now self =
               \<lparr>sensor = self\<lparr>running := Some True, attr_native_value := NativeDatetime T1\<rparr>,
                written = [NativeDatetime T1], raised = None\<rparr>"
    using assms by (auto simp add: update_from_latest_data_def differs_enough_def)
  from a b c show ?thesis by blast
qed

theorem hysteresis_witness:
  "update_from_latest_data
     (snapshot [(''Cavity_TimeStatusEstTimeRemaining'', ''120'')] (Some RunningMainCycle))
     t_2024 init
   = \<lparr>sensor = \<lparr>running = Some True, attr_native_value = NativeDatetime (t_2024 + 120000000)\<rparr>,
      written = [NativeDatetime (t_2024 + 120000000)], raised = None\<rparr>
   \<and> update_from_latest_data
     (snapshot [(''Cavity_TimeStatusEstTimeRemaining'', ''120'')] (Some RunningMainCycle))
     t_2024 \<lparr>running = Some True, attr_native_value = NativeDatetime (t_2024 + 180000000)\<rparr>
   = \<lparr>sensor = \<lparr>running = Some True, attr_native_value = NativeDatetime (t_2024 + 180000000)\<rparr>,
      written = [], raised = None\<rparr>
   \<and> update_from_latest_data
     (snapshot [(''Cavity_TimeStatusEstTimeRemaining'', ''120'')] (Some RunningMainCycle))
     t_2024 \<lparr>running = Some True, attr_native_value = NativeDatetime (t_2024 + 180000001)\<rparr>
   = \<lparr>sensor = \<lparr>running = Some True, attr_native_value = NativeDatetime (t_2024 + 120000000)\<rparr>,
      written = [NativeDatetime (t_2024 + 120000000)], raised = None\<rparr>"
proof -
  let ?wd = "snapshot [(''Cavity_TimeStatusEstTimeRemaining'', ''120'')] (Some RunningMainCycle)"
  let ?near = "\<lparr>running = Some True, attr_native_value = NativeDatetime (t_2024 + 180000000)\<rparr>"
  let ?far = "\<lparr>running = Some True, attr_native_value = NativeDatetime (t_2024 + 180000001)\<rparr>"
  have m: "get_machine_state ?wd = Some RunningMainCycle"
    by (simp add: snapshot_def)
  have p: "py_int (get_attribute ?wd ''Cavity_TimeStatusEstTimeRemaining'') = Inr 120"
    using py_int_120 by (simp add: snapshot_def)
  note h = hysteresis[OF m p new_timestamp_of_120]
  have "update_from_latest_data ?wd t_2024 init
      = \<lparr>sensor = \<lparr>running = Some True, attr_native_value = NativeDatetime (t_2024 + 120000000)\<rparr>,
         written = [NativeDatetime (t_2024 + 120000000)], raised = None\<rparr>"
    using h[of init 0] by (simp add: init_def)
  moreover have "update_from_latest_data ?wd t_2024 ?near
      = \<lparr>sensor = ?near, written = [], raised = None\<rparr>"
    using h[of ?near "t_2024 + 180000000"] by simp
  moreover have "update_from_latest_data ?wd t_2024 ?far
      = \<lparr>sensor = \<lparr>running = Some True, attr_native_value = NativeDatetime (t_2024 + 120000000)\<rparr>,
         written = [NativeDatetime (t_2024 + 120000000)], raised = None\<rparr>"
    using h[of ?far "t_2024 + 180000001"] by simp
  ultimately show ?thesis by simp
qed

text \<open>
  Claim C3. When the machine state is \<^verbatim>\<open>Complete\<close> or \<^verbatim>\<open>Standby\<close> and the running
  flag is true, the handler sets the flag to false, stores \<open>now\<close> and writes it; a
  notification that follows with the same machine state writes nothing and changes
  nothing.
\<close>

theorem finish_transition:
  assumes "get_machine_state wd = Some m"
    and "m = Complete \<or> m = Standby"
    and "running self = Some True"
    and "get_machine_state wd' = Some m"
  shows "update_from_latest_data wd now self =
           \<lparr>sensor = self\<lparr>running := Some False, attr_native_value := NativeDatetime now\<rparr>,
            written = [NativeDatetime now], raised = None\<rparr>
         \<and> update_from_latest_data wd' now' (sensor (update_from_latest_data wd now self)) =
           \<lparr>sensor = self\<lparr>running := Some False, attr_native_value := NativeDatetime now\<rparr>,
            written = [], raised = None\<rparr>"
  using assms by (auto simp add: update_from_latest_data_def)

theorem finish_transition_witness:
  "update_from_latest_data (snapshot [] (Some Complete)) t_2024
     \<lparr>running = Some True, attr_native_value = NativeDatetime (t_2024 - 3600000000)\<rparr>
   = \<lparr>sensor = \<lparr>running = Some False, attr_native_value = NativeDatetime t_2024\<rparr>,
      written = [NativeDatetime t_2024], raised = None\<rparr>
   \<and> update_from_latest_data (snapshot [] (Some Complete)) (t_2024 + 5000000)
       (sensor (update_from_latest_data (snapshot [] (Some Complete)) t_2024
          \<lparr>running = Some True, attr_native_value = NativeDatetime (t_2024 - 3600000000)\<rparr>))
   = \<lparr>sensor = \<lparr>running = Some False, attr_native_value = NativeDatetime t_2024\<rparr>,
      written = [], raised = None\<rparr>"
proof -
  let ?wd = "snapshot [] (Some Complete)"
  let ?self = "\<lparr>running = Some True, attr_native_value = NativeDatetime (t_2024 - 3600000000)\<rparr>"
  have m: "get_machine_state ?wd = Some Complete"
    by (simp add: snapshot_def)
  have t: "Complete = Complete \<or> Complete = Standby"
    by simp
  have r: "running ?self = Some True"
    by simp
  note f = finish_transition[OF m t r m, of t_2024 "t_2024 + 5000000"]
  have a: "update_from_latest_data ?wd t_2024 ?self
      = \<lparr>sensor = \<lparr>running = Some False, attr_native_value = NativeDatetime t_2024\<rparr>,
         written = [NativeDatetime t_2024], raised = None\<rparr>"
    using f[THEN conjunct1] by simp
  have b: "update_from_latest_data ?wd (t_2024 + 5000000)
        (sensor (update_from_latest_data ?wd t_2024 ?self))
      = \<lparr>sensor = \<lparr>running = Some False, attr_native_value = NativeDatetime t_2024\<rparr>,
         written = [], raised = None\<rparr>"
    using f[THEN conjunct2] by simp
  show ?thesis by (rule conjI[OF a b])
qed

text \<open>
  Claim C9. The finish transition does not consult the 60-second test: with the machine
  state \<^verbatim>\<open>Complete\<close> or \<^verbatim>\<open>Standby\<close> and the running flag true, \<open>now\<close> is written
  and stored whatever value was stored before, also one within 60 seconds of \<open>now\<close>.
\<close>

theorem finish_ignores_threshold:
  assumes "get_machine_state wd = Some Complete \<or> get_machine_state wd = Some Standby"
    and "running self = Some True"
  shows "written (update_from_latest_data wd now self) = [NativeDatetime now]
         \<and> attr_native_value (sensor (update_from_latest_data wd now self)) = NativeDatetime now"
  using assms by (auto simp add: update_from_latest_data_def)

theorem finish_ignores_threshold_witness:
  "\<not> differs_enough (NativeDatetime (t_2024 + 10000000)) t_2024
   \<and> written (update_from_latest_data (snapshot [] (Some Standby)) t_2024
        \<lparr>running = Some True, attr_native_value = NativeDatetime (t_2024 + 10000000)\<rparr>)
     = [NativeDatetime t_2024]
   \<and> attr_native_value (sensor (update_from_latest_data (snapshot [] (Some Standby)) t_2024
        \<lparr>running = Some True, attr_native_value = NativeDatetime (t_2024 + 10000000)\<rparr>))
     = NativeDatetime t_2024"
proof -
  let ?wd = "snapshot [] (Some Standby)"
  let ?self = "\<lparr>running = Some True, attr_native_value = NativeDatetime (t_2024 + 10000000)\<rparr>"
  have m: "get_machine_state ?wd = Some Complete \<or> get_machine_state ?wd = Some Standby"
    by (simp add: snapshot_def)
  have r: "running ?self = Some True"
    by simp
  have near: "\<not> differs_enough (NativeDatetime (t_2024 + 10000000)) t_2024"
    by (simp add: differs_enough_def)
  show ?thesis
    using near finish_ignores_threshold[OF m r, of t_2024] by simp
qed

text \<open>
  Claim C10. The running flag is \<^verbatim>\<open>None\<close> after \<^verbatim>\<open>__init__\<close> and still after
  \<^verbatim>\<open>async_added_to_hass\<close>, with or without restored data. So a first notification
  with the machine state \<^verbatim>\<open>Complete\<close> or \<^verbatim>\<open>Standby\<close> writes nothing and changes
  nothing, and no sequence of notifications writes anything as long as none of them
  has the machine state \<^verbatim>\<open>RunningMainCycle\<close>.
\<close>

theorem first_terminal_silent:
  "running init = None
   \<and> running (sensor (async_added_to_hass restored_data init)) = None
   \<and> (get_machine_state wd = Some Complete \<or> get_machine_state wd = Some Standby
        \<longrightarrow> update_from_latest_data wd now (sensor (async_added_to_hass restored_data init))
            = \<lparr>sensor = sensor (async_added_to_hass restored_data init),
               written = [], raised = None\<rparr>)
   \<and> ((\<forall>(wd, now) \<in> set ns. get_machine_state wd \<noteq> Some RunningMainCycle)
        \<longrightarrow> notifications ns (sensor (async_added_to_hass restored_data init))
            = (sensor (async_added_to_hass restored_data init), []))"
proof -
  let ?self = "sensor (async_added_to_hass restored_data init)"
  have r: "running init = None \<and> running ?self = None"
    by (simp add: async_added_to_hass_def init_def split: option.splits)
  then have nr: "running ?self \<noteq> Some True" by simp
  have one: "get_machine_state wd = Some Complete \<or> get_machine_state wd = Some Standby
         \<longrightarrow> update_from_latest_data wd now ?self = \<lparr>sensor = ?self, written = [], raised = None\<rparr>"
    using idle_update[OF nr, of wd now] by auto
  have many: "(\<forall>(wd, now) \<in> set ns. get_machine_state wd \<noteq> Some RunningMainCycle)
         \<longrightarrow> notifications ns ?self = (?self, [])"
    using idle_notifications[OF nr] by blast
  from r one many show ?thesis by blast
qed

theorem first_terminal_silent_witness:
  "update_from_latest_data (snapshot [] (Some Complete)) t_2024
     (sensor (async_added_to_hass None init))
   = \<lparr>sensor = init, written = [], raised = None\<rparr>
   \<and> notifications
       [(snapshot [] (Some Standby), t_2024),
        (snapshot [] (Some Pause), t_2024 + 1000000),
        (snapshot [] (Some Complete), t_2024 + 2000000)]
       (sensor (async_added_to_hass (Some (NativeDatetime (t_2024 - 5))) init))
   = (\<lparr>running = None, attr_native_value = NativeDatetime (t_2024 - 5)\<rparr>, [])"
proof -
  let ?ns = "[(snapshot [] (Some Standby), t_2024),
        (snapshot [] (Some Pause), t_2024 + 1000000),
        (snapshot [] (Some Complete), t_2024 + 2000000)]"
  have m: "get_machine_state (snapshot [] (Some Complete)) = Some Complete
           \<or> get_machine_state (snapshot [] (Some Complete)) = Some Standby"
    by (simp add: snapshot_def)
  have q: "\<forall>(wd, now) \<in> set ?ns. get_machine_state wd \<noteq> Some RunningMainCycle"
    by (simp add: snapshot_def)
  have "update_from_latest_data (snapshot [] (Some Complete)) t_2024
          (sensor (async_added_to_hass None init))
        = \<lparr>sensor = init, written = [], raised = None\<rparr>"
    using m first_terminal_silent[of None "snapshot [] (Some Complete)" t_2024 "[]"]
    by (simp add: async_added_to_hass_def)
  moreover have "notifications ?ns
          (sensor (async_added_to_hass (Some (NativeDatetime (t_2024 - 5))) init))
        = (\<lparr>running = None, attr_native_value = NativeDatetime (t_2024 - 5)\<rparr>, [])"
    using q first_terminal_silent[of "Some (NativeDatetime (t_2024 - 5))" "snapshot [] (Some Complete)" t_2024 ?ns]
    by (simp add: async_added_to_hass_def init_def)
  ultimately show ?thesis by simp
qed

text \<open>
  Claim C7. Adding a sensor whose restored data hold the timestamp \<open>T0\<close> stores
  \<open>T0\<close> as the sensor's value, leaves the running flag unset and writes nothing. A
  first notification with the machine state \<^verbatim>\<open>RunningMainCycle\<close> and a candidate
  \<open>T1\<close> then replaces \<open>T0\<close> by \<open>T1\<close> exactly when the two are more than 60 seconds
  apart.
\<close>

theorem restoration:
  "attr_native_value (sensor (async_added_to_hass (Some (NativeDatetime T0)) init))
     = NativeDatetime T0
   \<and> running (sensor (async_added_to_hass (Some (NativeDatetime T0)) init)) = None
   \<and> written (async_added_to_hass (Some (NativeDatetime T0)) init) = []
   \<and> raised (async_added_to_hass (Some (NativeDatetime T0)) init) = None
   \<and> (get_machine_state wd = Some RunningMainCycle
        \<and> py_int (get_attribute wd ''Cavity_TimeStatusEstTimeRemaining'') = Inr remaining_seconds
        \<and> new_timestamp_of now remaining_seconds = Inr T1
        \<longrightarrow> update_from_latest_data wd now
              (sensor (async_added_to_hass (Some (NativeDatetime T0)) init)) =
            (if \<bar>T1 - T0\<bar> > 60 * 1000000
             then \<lparr>sensor = \<lparr>running = Some True, attr_native_value = NativeDatetime T1\<rparr>,
                   written = [NativeDatetime T1], raised = None\<rparr>
             else \<lparr>sensor = \<lparr>running = Some True, attr_native_value = NativeDatetime T0\<rparr>,
                   written = [], raised = None\<rparr>))"
  by (auto simp add: async_added_to_hass_def init_def update_from_latest_data_def
      differs_enough_def)

theorem restoration_witness:
  "attr_native_value (sensor (async_added_to_hass (Some (NativeDatetime t_2024)) init))
     = NativeDatetime t_2024
   \<and> update_from_latest_data
       (snapshot [(''Cavity_TimeStatusEstTimeRemaining'', ''120'')] (Some RunningMainCycle))
       t_2024 (sensor (async_added_to_hass (Some (NativeDatetime t_2024)) init))
     = \<lparr>sensor = \<lparr>running = Some True, attr_native_value = NativeDatetime (t_2024 + 120000000)\<rparr>,
        written = [NativeDatetime (t_2024 + 120000000)], raised = None\<rparr>
   \<and> update_from_latest_data
       (snapshot [(''Cavity_TimeStatusEstTimeRemaining'', ''120'')] (Some RunningMainCycle))
       t_2024 (sensor (async_added_to_hass (Some (NativeDatetime (t_2024 + 100000000))) init))
     = \<lparr>sensor = \<lparr>running = Some True, attr_native_value = NativeDatetime (t_2024 + 100000000)\<rparr>,
        written = [], raised = None\<rparr>"
proof -
  let ?wd = "snapshot [(''Cavity_TimeStatusEstTimeRemaining'', ''120'')] (Some RunningMainCycle)"
  have m: "get_machine_state ?wd = Some RunningMainCycle"
    by (simp add: snapshot_def)
  have p: "py_int (get_attribute ?wd ''Cavity_TimeStatusEstTimeRemaining'') = Inr 120"
    using py_int_120 by (simp add: snapshot_def)
  note n = new_timestamp_of_120
  have "attr_native_value (sensor (async_added_to_hass (Some (NativeDatetime t_2024)) init))
          = NativeDatetime t_2024
        \<and> update_from_latest_data ?wd t_2024
            (sensor (async_added_to_hass (Some (NativeDatetime t_2024)) init))
          = \<lparr>sensor = \<lparr>running = Some True,
                        attr_native_value = NativeDatetime (t_2024 + 120000000)\<rparr>,
             written = [NativeDatetime (t_2024 + 120000000)], raised = None\<rparr>"
    using m p n restoration[of t_2024 ?wd 120 t_2024 "t_2024 + 120000000"] by simp
  moreover have "update_from_latest_data ?wd t_2024
            (sensor (async_added_to_hass (Some (NativeDatetime (t_2024 + 100000000))) init))
          = \<lparr>sensor = \<lparr>running = Some True,
                        attr_native_value = NativeDatetime (t_2024 + 100000000)\<rparr>,
             written = [], raised = None\<rparr>"
    using m p n restoration[of "t_2024 + 100000000" ?wd 120 t_2024 "t_2024 + 120000000"]
    by simp
  ultimately show ?thesis by simp
qed

end
